theory Spec2Isabelle
  imports Main
begin

section \<open>JavaScript values as the program sees them\<close>

text \<open>
  The values the handlers work on are the results of \<open>JSON.parse\<close>, plus \<open>undefined\<close>,
  which every read of an absent property yields. A number is kept as the text
  \<open>String(n)\<close> gives for it: the program only echoes numbers and interpolates them into
  template strings. An object is the list of its own properties in the order
  \<open>Object.keys\<close> enumerates them. Text is a list of bytes (UTF-8).
\<close>

datatype json =
    JUndefined
  | JNull
  | JBool bool
  | JNum string
  | JStr string
  | JArr "json list"
  | JObj "(string \<times> json) list"

text \<open>
  What the code throws. A \<open>TypeError\<close> is raised by the engine, the other two carry the
  message they were built with (\<open>JSON.parse\<close> raises \<open>SyntaxError\<close>, the program raises
  \<open>Error\<close>).
\<close>

datatype type_error =
    ReadProp string  \<comment> \<open>a property read on \<open>null\<close> or \<open>undefined\<close>\<close>
  | Destructure      \<comment> \<open>destructuring \<open>null\<close> or \<open>undefined\<close>\<close>
  | InOperand        \<comment> \<open>\<open>k in v\<close> where \<open>v\<close> is not an object\<close>
  | ToPrimitive      \<comment> \<open>an object with no callable \<open>toString\<close> or \<open>valueOf\<close> turned into text\<close>

datatype fault =
    TypeError type_error
  | SyntaxError string
  | Error string

text \<open>
  The host: the clock (\<open>clock rt site\<close> is what \<open>new Date().toISOString()\<close> returns
  at that place of the code, each of which runs at most once per request; the readings of
  \<open>log\<close> are left out with \<open>log\<close> itself), the text the engine gives a \<open>TypeError\<close>,
  and \<open>JSON.parse\<close> (\<open>Inl\<close> the message of its \<open>SyntaxError\<close>).
\<close>

datatype clock_site =
    AtRequest        \<comment> \<open>\<open>const timestamp\<close> at the top of the request handler\<close>
  | AtLastUpdated    \<comment> \<open>the \<open>Last Updated\<close> line of a retrieve result\<close>
  | AtMetadata       \<comment> \<open>\<open>metadata.timestamp\<close> of a REST answer\<close>
  | AtExecutionTime  \<comment> \<open>\<open>metadata.execution_time\<close> of a REST answer\<close>

record runtime =
  clock :: "clock_site \<Rightarrow> string"
  type_error_message :: "type_error \<Rightarrow> string"
  json_parse :: "string \<Rightarrow> string + json"

definition and_then :: "'e + 'a \<Rightarrow> ('a \<Rightarrow> 'e + 'b) \<Rightarrow> 'e + 'b" where
  "and_then m f = (case m of Inl e \<Rightarrow> Inl e | Inr a \<Rightarrow> f a)"

text \<open>\<open>error.message\<close> in a \<open>catch\<close> block.\<close>

fun error_message :: "runtime \<Rightarrow> fault \<Rightarrow> string" where
  "error_message rt (TypeError t) = type_error_message rt t"
| "error_message rt (SyntaxError m) = m"
| "error_message rt (Error m) = m"

text \<open>
  \<open>v.k\<close>: a \<open>TypeError\<close> on \<open>null\<close> and \<open>undefined\<close>, the own property of an object,
  \<open>undefined\<close> otherwise. The program reads only the names \<open>jsonrpc\<close>, \<open>id\<close>, \<open>method\<close>,
  \<open>params\<close>, \<open>name\<close>, \<open>arguments\<close>, \<open>query\<close>, \<open>type\<close> and \<open>parameters\<close>, none of which a
  built-in prototype defines.
\<close>

fun get_prop :: "json \<Rightarrow> string \<Rightarrow> fault + json" where
  "get_prop JUndefined k = Inl (TypeError (ReadProp k))"
| "get_prop JNull k = Inl (TypeError (ReadProp k))"
| "get_prop (JObj kvs) k = Inr (case map_of kvs k of None \<Rightarrow> JUndefined | Some v \<Rightarrow> v)"
| "get_prop v k = Inr JUndefined"

text \<open>The values \<open>if (v)\<close> and \<open>v || d\<close> take for true.\<close>

fun truthy :: "json \<Rightarrow> bool" where
  "truthy JUndefined = False"
| "truthy JNull = False"
| "truthy (JBool b) = b"
| "truthy (JNum n) = (n \<noteq> ''0'' \<and> n \<noteq> ''NaN'')"
| "truthy (JStr s) = (s \<noteq> [])"
| "truthy (JArr xs) = True"
| "truthy (JObj kvs) = True"

definition or_else :: "json \<Rightarrow> json \<Rightarrow> json" where
  "or_else v d = (if truthy v then v else d)"

text \<open>Decimal text of an array index.\<close>

definition digit_char :: "nat \<Rightarrow> char" where
  "digit_char d = char_of (48 + d)"

fun string_of_nat :: "nat \<Rightarrow> string" where
  "string_of_nat n =
     (if n < 10 then [digit_char n] else string_of_nat (n div 10) @ [digit_char (n mod 10)])"

declare string_of_nat.simps [simp del]

text \<open>
  \<open>Object.keys(v)\<close> for an object or an array, the only values it is applied to: the
  \<open>in\<close> test before it has failed on everything else.
\<close>

fun object_keys :: "json \<Rightarrow> string list" where
  "object_keys (JObj kvs) = map fst kvs"
| "object_keys (JArr xs) = map string_of_nat [0..<length xs]"
| "object_keys v = []"

text \<open>
  \<open>k in v\<close>, for a name \<open>k\<close> that no built-in prototype defines (the program asks for
  \<open>query\<close>, \<open>id\<close> and \<open>type\<close>): the own properties of an object or array, a \<open>TypeError\<close>
  on anything else.
\<close>

fun js_in :: "string \<Rightarrow> json \<Rightarrow> fault + bool" where
  "js_in k (JObj kvs) = Inr (k \<in> set (map fst kvs))"
| "js_in k (JArr xs) = Inr (k = ''length'' \<or> k \<in> set (map string_of_nat [0..<length xs]))"
| "js_in k v = Inl (TypeError InOperand)"

text \<open>
  \<open>String(v)\<close>, as a template string applies it. An array joins its elements with commas,
  \<open>null\<close> and \<open>undefined\<close> elements as empty text. An object prints as
  \<open>[object Object]\<close>, unless it has an own \<open>toString\<close> property: a parsed value is never
  callable, so the conversion fails.
\<close>

fun join_results :: "(fault + string) list \<Rightarrow> fault + string" where
  "join_results [] = Inr []"
| "join_results [r] = r"
| "join_results (r # rs) =
     and_then r (\<lambda>s. and_then (join_results rs) (\<lambda>t. Inr (s @ '','' @ t)))"

fun js_to_string :: "json \<Rightarrow> fault + string" where
  "js_to_string JUndefined = Inr ''undefined''"
| "js_to_string JNull = Inr ''null''"
| "js_to_string (JBool b) = Inr (if b then ''true'' else ''false'')"
| "js_to_string (JNum n) = Inr n"
| "js_to_string (JStr s) = Inr s"
| "js_to_string (JArr xs) =
     join_results (map (\<lambda>x. if x = JNull then Inr [] else if x = JUndefined then Inr []
                            else js_to_string x) xs)"
| "js_to_string (JObj kvs) =
     (if ''toString'' \<in> set (map fst kvs) then Inl (TypeError ToPrimitive)
      else Inr ''[object Object]'')"

section \<open>The tool table and the JSON-RPC envelopes\<close>

definition MCP_PROTOCOL_VERSION :: string where
  "MCP_PROTOCOL_VERSION = ''2024-11-05''"

definition SERVER_INFO :: json where
  "SERVER_INFO = JObj [(''name'', JStr ''ghl-mcp-server''), (''version'', JStr ''1.0.0'')]"

record input_schema =
  schema_type :: string
  properties :: json
  required :: "string list"

record tool =
  name :: string
  description :: string
  inputSchema :: input_schema

definition search_tool :: tool where
  "search_tool = \<lparr>
     name = ''search'',
     description = ''Search for information in GoHighLevel CRM system'',
     inputSchema = \<lparr>
       schema_type = ''object'',
       properties = JObj [
         (''query'', JObj [(''type'', JStr ''string''),
                          (''description'', JStr ''Search query for GoHighLevel data'')])],
       required = [''query'']\<rparr>\<rparr>"

definition retrieve_tool :: tool where
  "retrieve_tool = \<lparr>
     name = ''retrieve'',
     description = ''Retrieve specific data from GoHighLevel'',
     inputSchema = \<lparr>
       schema_type = ''object'',
       properties = JObj [
         (''id'', JObj [(''type'', JStr ''string''),
                       (''description'', JStr ''ID of the item to retrieve'')]),
         (''type'', JObj [(''type'', JStr ''string''),
                         (''enum'', JArr [JStr ''contact'', JStr ''conversation'', JStr ''blog'']),
                         (''description'', JStr ''Type of item to retrieve'')])],
       required = [''id'', ''type'']\<rparr>\<rparr>"

definition TOOLS :: "tool list" where
  "TOOLS = [search_tool, retrieve_tool]"

definition schema_json :: "input_schema \<Rightarrow> json" where
  "schema_json s = JObj [(''type'', JStr (schema_type s)), (''properties'', properties s),
                         (''required'', JArr (map JStr (required s)))]"

definition tool_json :: "tool \<Rightarrow> json" where
  "tool_json t = JObj [(''name'', JStr (name t)), (''description'', JStr (description t)),
                       (''inputSchema'', schema_json (inputSchema t))]"

text \<open>\<open>createJsonRpcResponse(id, result = null, error = null)\<close>.\<close>

definition createJsonRpcResponse :: "json \<Rightarrow> json \<Rightarrow> json \<Rightarrow> json" where
  "createJsonRpcResponse i result err =
     JObj ([(''jsonrpc'', JStr ''2.0''), (''id'', i)] @
           (if truthy err then [(''error'', err)] else [(''result'', result)]))"

definition createJsonRpcNotification :: "string \<Rightarrow> json \<Rightarrow> json" where
  "createJsonRpcNotification method params =
     JObj [(''jsonrpc'', JStr ''2.0''), (''method'', JStr method), (''params'', params)]"

text \<open>The bytes of the characters the result templates hold beyond ASCII.\<close>

definition nl :: string where "nl = [CHR 0x0A]"
definition dq :: string where "dq = [CHR 0x22]"
definition sq :: string where "sq = [CHR 0x27]"
definition check_mark :: string where "check_mark = [CHR 0xE2, CHR 0x9C, CHR 0x85]"
definition bullet :: string where "bullet = [CHR 0xE2, CHR 0x80, CHR 0xA2]"
definition bar_chart :: string where "bar_chart = [CHR 0xF0, CHR 0x9F, CHR 0x93, CHR 0x8A]"
definition page_icon :: string where "page_icon = [CHR 0xF0, CHR 0x9F, CHR 0x93, CHR 0x84]"

section \<open>The method handlers\<close>

definition handleInitialize :: "json \<Rightarrow> fault + json" where
  "handleInitialize request =
     and_then (get_prop request ''params'') (\<lambda>logged.
     and_then (get_prop request ''id'') (\<lambda>i.
       Inr (createJsonRpcResponse i
              (JObj [(''protocolVersion'', JStr MCP_PROTOCOL_VERSION),
                     (''capabilities'', JObj [(''tools'', JObj [])]),
                     (''serverInfo'', SERVER_INFO)])
              JNull)))"

definition handleToolsList :: "json \<Rightarrow> fault + json" where
  "handleToolsList request =
     and_then (get_prop request ''id'') (\<lambda>i.
       Inr (createJsonRpcResponse i (JObj [(''tools'', JArr (map tool_json TOOLS))]) JNull))"

definition text_content :: "string \<Rightarrow> json" where
  "text_content t = JObj [(''content'', JArr [JObj [(''type'', JStr ''text''), (''text'', JStr t)]])]"

text \<open>
  \<open>handleToolsCall\<close>: the destructuring of \<open>request.params\<close>, then the branch on the
  tool name. The template strings read \<open>args.query\<close>, or \<open>args.type\<close>, \<open>args.id\<close>,
  \<open>args.type\<close> and the clock, in that order.
\<close>

definition handleToolsCall :: "runtime \<Rightarrow> json \<Rightarrow> fault + json" where
  "handleToolsCall rt request =
     and_then (get_prop request ''params'') (\<lambda>params.
     if params = JUndefined then Inl (TypeError Destructure)
     else if params = JNull then Inl (TypeError Destructure)
     else
     and_then (get_prop params ''name'') (\<lambda>nm.
     and_then (get_prop params ''arguments'') (\<lambda>args.
     if nm = JStr ''search'' then
       and_then (get_prop args ''query'') (\<lambda>q.
       and_then (js_to_string q) (\<lambda>qs.
       and_then (get_prop request ''id'') (\<lambda>i.
         Inr (createJsonRpcResponse i (text_content (
           ''GoHighLevel Search Results for: '' @ dq @ qs @ dq @ nl @ nl @
           check_mark @ '' Found Results:'' @ nl @
           bullet @ '' Contact: John Doe (john@example.com)'' @ nl @
           bullet @ '' Contact: Jane Smith (jane@example.com)'' @ nl @
           bullet @ '' Conversation: '' @ dq @ ''Follow-up call scheduled'' @ dq @ nl @
           bullet @ '' Blog Post: '' @ dq @ ''How to Generate More Leads'' @ dq @ nl @ nl @
           bar_chart @ '' Search completed successfully in GoHighLevel CRM.'')) JNull))))
     else if nm = JStr ''retrieve'' then
       and_then (get_prop args ''type'') (\<lambda>ty.
       and_then (js_to_string ty) (\<lambda>tys.
       and_then (get_prop args ''id'') (\<lambda>ident.
       and_then (js_to_string ident) (\<lambda>ids.
       and_then (js_to_string ty) (\<lambda>tys2.
       and_then (get_prop request ''id'') (\<lambda>i.
         Inr (createJsonRpcResponse i (text_content (
           ''GoHighLevel '' @ tys @ '' Retrieved: ID '' @ ids @ nl @ nl @
           page_icon @ '' Details:'' @ nl @
           bullet @ '' Name: Sample '' @ tys2 @ nl @
           bullet @ '' Status: Active'' @ nl @
           bullet @ '' Last Updated: '' @ clock rt AtLastUpdated @ nl @
           bullet @ '' Source: GoHighLevel CRM'' @ nl @ nl @
           check_mark @ '' Data retrieved successfully from GoHighLevel.'')) JNull)))))))
     else
       and_then (get_prop request ''id'') (\<lambda>i.
       and_then (js_to_string nm) (\<lambda>ns.
         Inr (createJsonRpcResponse i JNull
                (JObj [(''code'', JNum ''-32601''),
                       (''message'', JStr (''Method not found: '' @ ns))])))))))"

definition handlePing :: "json \<Rightarrow> fault + json" where
  "handlePing request =
     and_then (get_prop request ''id'') (\<lambda>i. Inr (createJsonRpcResponse i (JObj []) JNull))"

text \<open>
  \<open>processJsonRpcMessage\<close>. \<open>dispatch\<close> is the body of its \<open>try\<close> block: the arguments
  of the first \<open>log\<close> call read \<open>message.method\<close> and \<open>message.id\<close>, then the version
  check and the switch on the method. The \<open>catch\<close> block reads \<open>message.id\<close> again,
  outside any \<open>try\<close>.
\<close>

definition dispatch :: "runtime \<Rightarrow> json \<Rightarrow> fault + json" where
  "dispatch rt message =
     and_then (get_prop message ''method'') (\<lambda>logged_method.
     and_then (get_prop message ''id'') (\<lambda>logged_id.
     and_then (get_prop message ''jsonrpc'') (\<lambda>version.
     if version \<noteq> JStr ''2.0'' then
       and_then (get_prop message ''id'') (\<lambda>i.
         Inr (createJsonRpcResponse i JNull
                (JObj [(''code'', JNum ''-32600''),
                       (''message'',
                        JStr (''Invalid Request: jsonrpc must be '' @ sq @ ''2.0'' @ sq))])))
     else
     and_then (get_prop message ''method'') (\<lambda>method.
     if method = JStr ''initialize'' then handleInitialize message
     else if method = JStr ''tools/list'' then handleToolsList message
     else if method = JStr ''tools/call'' then handleToolsCall rt message
     else if method = JStr ''ping'' then handlePing message
     else
       and_then (get_prop message ''id'') (\<lambda>i.
       and_then (js_to_string method) (\<lambda>ms.
         Inr (createJsonRpcResponse i JNull
                (JObj [(''code'', JNum ''-32601''),
                       (''message'', JStr (''Method not found: '' @ ms))]))))))))"

definition processJsonRpcMessage :: "runtime \<Rightarrow> json \<Rightarrow> fault + json" where
  "processJsonRpcMessage rt message =
     (case dispatch rt message of
        Inr response \<Rightarrow> Inr response
      | Inl e \<Rightarrow>
          and_then (get_prop message ''id'') (\<lambda>i.
            Inr (createJsonRpcResponse i JNull
                   (JObj [(''code'', JNum ''-32603''),
                          (''message'', JStr ''Internal error''),
                          (''data'', JStr (error_message rt e))]))))"

section \<open>Tool execution and the REST bridge\<close>

text \<open>
  \<open>executeToolLogic(toolName, parameters)\<close>: the result text, or what it throws. The tool
  name comes from the request path and is compared with \<open>===\<close>.
\<close>

definition executeToolLogic :: "runtime \<Rightarrow> json \<Rightarrow> json \<Rightarrow> fault + string" where
  "executeToolLogic rt toolName parameters =
     (if toolName = JStr ''search'' then
        and_then (get_prop parameters ''query'') (\<lambda>q.
        and_then (js_to_string q) (\<lambda>qs.
          Inr (''GoHighLevel Search Results for: '' @ dq @ qs @ dq @ nl @ nl @
               check_mark @ '' Found Results:'' @ nl @
               bullet @ '' Contact: John Doe (john@example.com)'' @ nl @
               bullet @ '' Contact: Jane Smith (jane@example.com)'' @ nl @
               bullet @ '' Conversation: '' @ dq @ ''Follow-up call scheduled'' @ dq @ nl @
               bullet @ '' Blog Post: '' @ dq @ ''How to Generate More Leads'' @ dq @ nl @ nl @
               bar_chart @ '' Search completed successfully in GoHighLevel CRM.'')))
      else if toolName = JStr ''retrieve'' then
        and_then (get_prop parameters ''type'') (\<lambda>ty.
        and_then (js_to_string ty) (\<lambda>tys.
        and_then (get_prop parameters ''id'') (\<lambda>ident.
        and_then (js_to_string ident) (\<lambda>ids.
        and_then (js_to_string ty) (\<lambda>tys2.
          Inr (''GoHighLevel '' @ tys @ '' Retrieved: ID '' @ ids @ nl @ nl @
               page_icon @ '' Details:'' @ nl @
               bullet @ '' Name: Sample '' @ tys2 @ nl @
               bullet @ '' Status: Active'' @ nl @
               bullet @ '' Last Updated: '' @ clock rt AtLastUpdated @ nl @
               bullet @ '' Source: GoHighLevel CRM'' @ nl @ nl @
               check_mark @ '' Data retrieved successfully from GoHighLevel.''))))))
      else
        and_then (js_to_string toolName) (\<lambda>ts.
          Inl (Error (''Tool '' @ sq @ ts @ sq @ '' execution not implemented''))))"

text \<open>\<open>xs.join(sep)\<close> on a list of strings.\<close>

fun join_with :: "string \<Rightarrow> string list \<Rightarrow> string" where
  "join_with sep [] = []"
| "join_with sep [x] = x"
| "join_with sep (x # xs) = x @ sep @ join_with sep xs"

text \<open>
  \<open>requiredParams.filter(param => !(param in parameters))\<close>: the required names that are
  not keys of the parameters, in the order of the declaration; the \<open>in\<close> test may throw.
\<close>

fun missing_params :: "string list \<Rightarrow> json \<Rightarrow> fault + string list" where
  "missing_params [] parameters = Inr []"
| "missing_params (p # ps) parameters =
     and_then (js_in p parameters) (\<lambda>present.
     and_then (missing_params ps parameters) (\<lambda>rest.
       Inr (if present then rest else p # rest)))"

text \<open>What a handler does to the response object \<open>res\<close>, one entry per call.\<close>

datatype action =
    SetHeader string string                  \<comment> \<open>\<open>res.setHeader(k, v)\<close>\<close>
  | WriteHead nat "(string \<times> string) list"   \<comment> \<open>\<open>res.writeHead(status, headers)\<close>\<close>
  | SendData json                            \<comment> \<open>\<open>sendSSE(res, v)\<close>: writes \<open>data: JSON.stringify(v)\<close> and a blank line\<close>
  | WriteRaw string                          \<comment> \<open>\<open>res.write(text)\<close>\<close>
  | End                                      \<comment> \<open>\<open>res.end()\<close>\<close>
  | StatusJson nat json                      \<comment> \<open>\<open>res.status(n).json(v)\<close>\<close>
  | StatusEnd nat                            \<comment> \<open>\<open>res.status(n).end()\<close>\<close>

definition metadata :: "runtime \<Rightarrow> json \<Rightarrow> (string \<times> json) list \<Rightarrow> string \<times> json" where
  "metadata rt toolName extra =
     (''metadata'', JObj ([(''tool'', toolName), (''timestamp'', JStr (clock rt AtMetadata))] @ extra))"

text \<open>
  The \<open>end\<close> callback of the tool execution endpoint. \<open>genai_try\<close> is the body of its outer
  \<open>try\<close> block, \<open>genai_on_end\<close> adds the outer \<open>catch\<close>.
\<close>

definition genai_try :: "runtime \<Rightarrow> json \<Rightarrow> string \<Rightarrow> fault + action" where
  "genai_try rt toolName body =
     (case json_parse rt body of
        Inl m \<Rightarrow> Inl (SyntaxError m)
      | Inr requestData \<Rightarrow>
          and_then (get_prop requestData ''parameters'') (\<lambda>given.
          let parameters = or_else given (JObj []) in
          (case find (\<lambda>t. JStr (name t) = toolName) TOOLS of
             None \<Rightarrow>
               and_then (js_to_string toolName) (\<lambda>ts.
                 Inr (StatusJson 404 (JObj [
                   (''success'', JBool False),
                   (''error'', JStr (''Tool '' @ sq @ ts @ sq @ '' not found'')),
                   (''available_tools'', JArr (map (\<lambda>t. JStr (name t)) TOOLS)),
                   metadata rt toolName []])))
           | Some t \<Rightarrow>
               let requiredParams = required (inputSchema t) in
               and_then (missing_params requiredParams parameters) (\<lambda>missingParams.
               if length missingParams > 0 then
                 Inr (StatusJson 400 (JObj [
                   (''success'', JBool False),
                   (''error'', JStr (''Missing required parameters: '' @
                                     join_with '', '' missingParams)),
                   (''required_parameters'', JArr (map JStr requiredParams)),
                   (''provided_parameters'', JArr (map JStr (object_keys parameters))),
                   metadata rt toolName []]))
               else
                 (case executeToolLogic rt toolName parameters of
                    Inr result \<Rightarrow>
                      Inr (StatusJson 200 (JObj [
                        (''success'', JBool True),
                        (''result'', JStr result),
                        metadata rt toolName [
                          (''parameters'', parameters),
                          (''execution_time'', JStr (clock rt AtExecutionTime))]]))
                  | Inl toolError \<Rightarrow>
                      Inr (StatusJson 500 (JObj [
                        (''success'', JBool False),
                        (''error'', JStr (error_message rt toolError)),
                        metadata rt toolName [(''parameters'', parameters)]])))))))"

definition genai_on_end :: "runtime \<Rightarrow> json \<Rightarrow> string \<Rightarrow> action" where
  "genai_on_end rt toolName body =
     (case genai_try rt toolName body of
        Inr a \<Rightarrow> a
      | Inl e \<Rightarrow>
          StatusJson 400 (JObj [
            (''success'', JBool False),
            (''error'', JStr ''Invalid JSON in request body''),
            (''details'', JStr (error_message rt e)),
            metadata rt toolName []]))"

section \<open>The request handler\<close>

record request =
  http_method :: string
  url :: string

text \<open>\<open>s.startsWith(p)\<close>, \<open>s.includes(p)\<close> and \<open>s.split(sep)\<close> for a separator that is not empty.\<close>

definition starts_with :: "string \<Rightarrow> string \<Rightarrow> bool" where
  "starts_with s p = (take (length p) s = p)"

fun includes_str :: "string \<Rightarrow> string \<Rightarrow> bool" where
  "includes_str [] p = (p = [])"
| "includes_str (c # cs) p = (starts_with (c # cs) p \<or> includes_str cs p)"

function js_split :: "string \<Rightarrow> string \<Rightarrow> string \<Rightarrow> string list" where
  "js_split sep acc [] = [acc]"
| "js_split sep acc (c # cs) =
     (if sep \<noteq> [] \<and> starts_with (c # cs) sep
      then acc # js_split sep [] (drop (length sep) (c # cs))
      else js_split sep (acc @ [c]) cs)"
  by pat_completeness auto
termination
  by (relation "measure (\<lambda>(sep, acc, s). length s)") auto

text \<open>\<open>xs[1]\<close> of a list of strings: \<open>undefined\<close> past the end.\<close>

fun second_piece :: "string list \<Rightarrow> json" where
  "second_piece (a # b # rest) = JStr b"
| "second_piece xs = JUndefined"

definition cors_headers :: "action list" where
  "cors_headers = [
     SetHeader ''Access-Control-Allow-Origin'' ''*'',
     SetHeader ''Access-Control-Allow-Methods'' ''GET, POST, OPTIONS'',
     SetHeader ''Access-Control-Allow-Headers'' ''Content-Type, Accept, Authorization'',
     SetHeader ''Access-Control-Max-Age'' ''86400'']"

definition sse_headers :: "(string \<times> string) list" where
  "sse_headers = [
     (''Content-Type'', ''text/event-stream''),
     (''Cache-Control'', ''no-cache''),
     (''Connection'', ''keep-alive''),
     (''Access-Control-Allow-Origin'', ''*''),
     (''Access-Control-Allow-Headers'', ''Content-Type, Accept''),
     (''Access-Control-Allow-Methods'', ''GET, POST, OPTIONS'')]"

definition health_body :: "runtime \<Rightarrow> json" where
  "health_body rt = JObj [
     (''status'', JStr ''healthy''),
     (''server'', JStr ''ghl-mcp-server''),
     (''version'', JStr ''1.0.0''),
     (''protocol'', JStr MCP_PROTOCOL_VERSION),
     (''timestamp'', JStr (clock rt AtRequest)),
     (''tools'', JArr (map (\<lambda>t. JStr (name t)) TOOLS)),
     (''endpoints'', JObj [
        (''mcp'', JStr ''/sse''),
        (''genai_tools'', JStr ''/api/genai/tools''),
        (''genai_execute'', JStr ''/api/genai/tools/{toolName}'')])]"

definition genai_tools_body :: json where
  "genai_tools_body = JObj [
     (''tools'', JArr (map (\<lambda>t. JObj [
        (''name'', JStr (name t)),
        (''description'', JStr (description t)),
        (''parameters'', schema_json (inputSchema t))]) TOOLS))]"

definition not_found_body :: json where
  "not_found_body = JObj [
     (''error'', JStr ''Not found''),
     (''available_endpoints'', JObj [
        (''health'', JStr ''/''),
        (''mcp_sse'', JStr ''/sse''),
        (''genai_tools'', JStr ''/api/genai/tools''),
        (''genai_execute'', JStr ''/api/genai/tools/{toolName}'')])]"

definition initNotification :: json where
  "initNotification = createJsonRpcNotification ''notification/initialized'' (JObj [])"

definition toolsNotification :: json where
  "toolsNotification = createJsonRpcNotification ''notification/tools/list_changed'' (JObj [])"

text \<open>
  What the handler has left registered when it returns: nothing, the body listeners of the
  tool execution endpoint (with the tool name it cut from the path), the timers and
  listeners of an event stream, or the body listeners of a posted message.
\<close>

datatype listening =
    Nothing
  | GenAIBody json
  | SSEStream
  | SSEBody

text \<open>
  One exchange: the calls made on \<open>res\<close> so far, the body received so far, what is
  registered, and the timers that are pending, each with the time it is due (in
  milliseconds since the request arrived; \<open>None\<close> when it is not set, has fired for good
  or has been cleared).
\<close>

record conn =
  out :: "action list"
  body :: string
  listening :: listening
  tools_due :: "nat option"      \<comment> \<open>\<open>setTimeout\<close> of the tools-changed notification, 100 ms\<close>
  heartbeat_due :: "nat option"  \<comment> \<open>\<open>setInterval\<close> of the heartbeat, 25000 ms\<close>
  deadline_due :: "nat option"   \<comment> \<open>\<open>setTimeout\<close> of the automatic close, 50000 ms\<close>
  end_due :: "nat option"        \<comment> \<open>\<open>setTimeout\<close> of \<open>res.end()\<close> after an answer, 100 ms\<close>
  now :: nat

definition idle :: "action list \<Rightarrow> listening \<Rightarrow> conn" where
  "idle acts l = \<lparr>out = acts, body = [], listening = l, tools_due = None,
                  heartbeat_due = None, deadline_due = None, end_due = None, now = 0\<rparr>"

text \<open>\<open>module.exports\<close>: the synchronous part of the handler, branch by branch.\<close>

definition module_exports :: "runtime \<Rightarrow> request \<Rightarrow> conn" where
  "module_exports rt req =
     (if http_method req = ''OPTIONS'' then
        idle (cors_headers @ [StatusEnd 200]) Nothing
      else if url req = ''/health'' \<or> url req = ''/'' then
        idle (cors_headers @ [StatusJson 200 (health_body rt)]) Nothing
      else if includes_str (url req) ''favicon'' then
        idle (cors_headers @ [StatusEnd 404]) Nothing
      else if url req = ''/api/genai/tools'' \<and> http_method req = ''GET'' then
        idle (cors_headers @ [StatusJson 200 genai_tools_body]) Nothing
      else if starts_with (url req) ''/api/genai/tools/'' \<and> http_method req = ''POST'' then
        idle cors_headers
          (GenAIBody (second_piece (js_split ''/api/genai/tools/'' [] (url req))))
      else if url req = ''/sse'' then
        (if http_method req = ''GET'' then
           (idle (cors_headers @ [WriteHead 200 sse_headers, SendData initNotification]) SSEStream)
             \<lparr>tools_due := Some 100, heartbeat_due := Some 25000, deadline_due := Some 50000\<rparr>
         else if http_method req = ''POST'' then
           idle (cors_headers @ [WriteHead 200 sse_headers]) SSEBody
         else
           idle (cors_headers @ [WriteHead 200 sse_headers, StatusJson 404 not_found_body]) Nothing)
      else
        idle (cors_headers @ [StatusJson 404 not_found_body]) Nothing)"

text \<open>
  The \<open>end\<close> callback of a posted message: one \<open>try\<close> block around the parse, the
  dispatch, the push of the answer and the timer that ends the stream; the \<open>catch\<close> block
  pushes a parse error and ends the stream at once.
\<close>

definition parse_error_response :: json where
  "parse_error_response =
     createJsonRpcResponse JNull JNull
       (JObj [(''code'', JNum ''-32700''), (''message'', JStr ''Parse error'')])"

definition sse_post_on_end :: "runtime \<Rightarrow> nat \<Rightarrow> conn \<Rightarrow> conn" where
  "sse_post_on_end rt t c =
     (case and_then (case json_parse rt (body c) of
                       Inl m \<Rightarrow> Inl (SyntaxError m)
                     | Inr message \<Rightarrow> Inr message)
                    (processJsonRpcMessage rt) of
        Inr response \<Rightarrow>
          c\<lparr>out := out c @ [SendData response], end_due := Some (t + 100)\<rparr>
      | Inl e \<Rightarrow>
          c\<lparr>out := out c @ [SendData parse_error_response, End]\<rparr>)"

text \<open>
  What can happen to an exchange after the handler has returned: the request delivers a
  chunk of its body, ends, closes or fails, or one of the timers fires.
\<close>

datatype event =
    Data string
  | EndOfBody
  | Close
  | StreamError string
  | ToolsTimer
  | HeartbeatTimer
  | DeadlineTimer
  | EndTimer

definition is_due :: "nat option \<Rightarrow> nat \<Rightarrow> bool" where
  "is_due due t = (case due of None \<Rightarrow> False | Some d \<Rightarrow> d \<le> t)"

text \<open>
  The callback an event runs, at time \<open>t\<close>. An event nothing listens to, or a timer that
  is not pending or not yet due, changes nothing.
\<close>

fun react :: "runtime \<Rightarrow> nat \<Rightarrow> event \<Rightarrow> conn \<Rightarrow> conn" where
  "react rt t (Data chunk) c =
     (case listening c of
        GenAIBody toolName \<Rightarrow> c\<lparr>body := body c @ chunk\<rparr>
      | SSEBody \<Rightarrow> c\<lparr>body := body c @ chunk\<rparr>
      | other \<Rightarrow> c)"
| "react rt t EndOfBody c =
     (case listening c of
        GenAIBody toolName \<Rightarrow>
          c\<lparr>out := out c @ [genai_on_end rt toolName (body c)], listening := Nothing\<rparr>
      | SSEBody \<Rightarrow> (sse_post_on_end rt t c)\<lparr>listening := Nothing\<rparr>
      | other \<Rightarrow> c)"
| "react rt t Close c =
     (case listening c of
        SSEStream \<Rightarrow> c\<lparr>heartbeat_due := None\<rparr>
      | other \<Rightarrow> c)"
| "react rt t (StreamError m) c =
     (case listening c of
        SSEStream \<Rightarrow> c\<lparr>heartbeat_due := None\<rparr>
      | other \<Rightarrow> c)"
| "react rt t ToolsTimer c =
     (if is_due (tools_due c) t
      then c\<lparr>out := out c @ [SendData toolsNotification], tools_due := None\<rparr>
      else c)"
| "react rt t HeartbeatTimer c =
     (if is_due (heartbeat_due c) t
      then c\<lparr>out := out c @ [WriteRaw ('': heartbeat'' @ nl @ nl)],
              heartbeat_due := Some (t + 25000)\<rparr>
      else c)"
| "react rt t DeadlineTimer c =
     (if is_due (deadline_due c) t
      then c\<lparr>out := out c @ [End], heartbeat_due := None, deadline_due := None\<rparr>
      else c)"
| "react rt t EndTimer c =
     (if is_due (end_due c) t
      then c\<lparr>out := out c @ [End], end_due := None\<rparr>
      else c)"

text \<open>Events arrive in the order of their times; one that would go back in time is dropped.\<close>

definition step :: "runtime \<Rightarrow> conn \<Rightarrow> nat \<times> event \<Rightarrow> conn" where
  "step rt c te =
     (if fst te < now c then c else (react rt (fst te) (snd te) c)\<lparr>now := fst te\<rparr>)"

definition run :: "runtime \<Rightarrow> conn \<Rightarrow> (nat \<times> event) list \<Rightarrow> conn" where
  "run rt c evs = foldl (step rt) c evs"

section \<open>The SDK-based server: routing a tool call to its handler group\<close>















































section \<open>Notions the properties are stated with\<close>

text \<open>
  A request body arrives as chunks, each at some time: the events that deliver them, and the
  text the \<open>data\<close> listener has put together when the body ends.
\<close>

definition data_events :: "(nat \<times> string) list \<Rightarrow> (nat \<times> event) list" where
  "data_events chunks = map (\<lambda>(t, s). (t, Data s)) chunks"

definition received :: "(nat \<times> string) list \<Rightarrow> string" where
  "received chunks = concat (map snd chunks)"

text \<open>\<open>pushed_before a b xs\<close>: in the calls \<open>xs\<close>, no \<open>b\<close> comes before the first \<open>a\<close>.\<close>

fun pushed_before :: "action \<Rightarrow> action \<Rightarrow> action list \<Rightarrow> bool" where
  "pushed_before a b [] = True"
| "pushed_before a b (x # xs) =
     (if x = a then True else if x = b then False else pushed_before a b xs)"

text \<open>
  A host for the worked examples: a fixed clock, and a parser that knows four bodies.
\<close>

definition ping_body :: string where
  "ping_body = ''{'' @ dq @ ''jsonrpc'' @ dq @ '':'' @ dq @ ''2.0'' @ dq @ '','' @
               dq @ ''id'' @ dq @ '':1,'' @ dq @ ''method'' @ dq @ '':'' @ dq @ ''ping'' @ dq @ ''}''"

definition null_query_body :: string where
  "null_query_body = ''{'' @ dq @ ''parameters'' @ dq @ '':{'' @ dq @ ''query'' @ dq @ '':null}}''"

definition example_runtime :: runtime where
  "example_runtime = \<lparr>
     clock = (\<lambda>site. ''2025-01-01T00:00:00.000Z''),
     type_error_message = (\<lambda>e. ''TypeError''),
     json_parse = (\<lambda>s.
       if s = ''{}'' then Inr (JObj [])
       else if s = ''null'' then Inr JNull
       else if s = ping_body
         then Inr (JObj [(''jsonrpc'', JStr ''2.0''), (''id'', JNum ''1''), (''method'', JStr ''ping'')])
       else if s = null_query_body
         then Inr (JObj [(''parameters'', JObj [(''query'', JNull)])])
       else Inl ''Unexpected token'')\<rparr>"



text \<open>
  The states an exchange that carries a posted message can be in: waiting for the body,
  answered with the stream still open, answered and ended.
\<close>

definition post_inv :: "conn \<Rightarrow> bool" where
  "post_inv c = (tools_due c = None \<and> heartbeat_due c = None \<and> deadline_due c = None \<and>
     ((listening c = SSEBody \<and> end_due c = None \<and>
         out c = cors_headers @ [WriteHead 200 sse_headers]) \<or>
      (listening c = Nothing \<and>
         (\<exists>r. out c = cors_headers @ [WriteHead 200 sse_headers, SendData r])) \<or>
      (listening c = Nothing \<and> end_due c = None \<and>
         (\<exists>r. out c = cors_headers @ [WriteHead 200 sse_headers, SendData r, End]))))"

section \<open>Properties of the dispatcher\<close>

lemma and_then_Inr: "and_then (Inr a) f = f a"
  by (simp add: and_then_def)

lemma and_then_Inl: "and_then (Inl e) f = Inl e"
  by (simp add: and_then_def)

lemma get_prop_total:
  assumes "v \<noteq> JNull" and "v \<noteq> JUndefined"
  shows "\<exists>w. get_prop v k = Inr w"
  using assms by (cases v) simp_all

lemma get_prop_Inr_not_nullish:
  assumes "get_prop v k = Inr w"
  shows "v \<noteq> JNull \<and> v \<noteq> JUndefined"
  using assms by (cases v) simp_all

text \<open>
  C3. The claim: \<open>processJsonRpcMessage\<close> returns a response for every decoded message,
  \<open>null\<close> included, and never lets an exception reach its caller. On \<open>null\<close> the code does
  not: reading \<open>message.method\<close> throws inside the \<open>try\<close> block, and the \<open>catch\<close> block
  then reads \<open>message.id\<close>, which throws again with nothing left to catch it.
\<close>

theorem null_message_escapes:
  "processJsonRpcMessage rt JNull = Inl (TypeError (ReadProp ''id''))"
  by (simp add: processJsonRpcMessage_def dispatch_def and_then_Inl)

text \<open>
  On every other value the \<open>catch\<close> block does its work: the message's \<open>id\<close> can be
  read, and whatever the \<open>try\<close> block throws becomes an answer with code -32603. A
  \<open>tools/call\<close> without \<open>params\<close> is such a case.
\<close>

lemma other_messages_answered:
  assumes "message \<noteq> JNull" and "message \<noteq> JUndefined"
  shows "\<exists>i. get_prop message ''id'' = Inr i \<and>
           processJsonRpcMessage rt message =
             (case dispatch rt message of
                Inr response \<Rightarrow> Inr response
              | Inl e \<Rightarrow>
                  Inr (JObj [(''jsonrpc'', JStr ''2.0''), (''id'', i),
                             (''error'', JObj [(''code'', JNum ''-32603''),
                                              (''message'', JStr ''Internal error''),
                                              (''data'', JStr (error_message rt e))])]))"
proof -
  obtain i where i: "get_prop message ''id'' = Inr i"
    using assms get_prop_total by blast
  then show ?thesis
    by (simp add: processJsonRpcMessage_def and_then_Inr createJsonRpcResponse_def
        split: sum.splits)
qed

lemma tools_call_without_params_internal_error:
  "processJsonRpcMessage rt
     (JObj [(''jsonrpc'', JStr ''2.0''), (''id'', JNum ''1''), (''method'', JStr ''tools/call'')]) =
   Inr (JObj [(''jsonrpc'', JStr ''2.0''), (''id'', JNum ''1''),
              (''error'', JObj [(''code'', JNum ''-32603''),
                               (''message'', JStr ''Internal error''),
                               (''data'', JStr (type_error_message rt Destructure))])])"
  by (simp add: processJsonRpcMessage_def dispatch_def handleToolsCall_def and_then_Inr
      and_then_Inl createJsonRpcResponse_def)

text \<open>
  C1. The claim: a \<open>tools/call\<close> whose arguments lack a required parameter is answered with
  an error that lists the missing names. The dispatcher has no such check: a call of
  \<open>search\<close> with empty arguments is answered with a result, the text of which quotes the
  query as \<open>undefined\<close>.
\<close>

theorem tools_call_without_query_succeeds:
  "processJsonRpcMessage rt
     (JObj [(''jsonrpc'', JStr ''2.0''), (''id'', JNum ''1''), (''method'', JStr ''tools/call''),
            (''params'', JObj [(''name'', JStr ''search''), (''arguments'', JObj [])])])
   = Inr (JObj [(''jsonrpc'', JStr ''2.0''), (''id'', JNum ''1''),
                (''result'', text_content (
                   ''GoHighLevel Search Results for: '' @ dq @ ''undefined'' @ dq @ nl @ nl @
                   check_mark @ '' Found Results:'' @ nl @
                   bullet @ '' Contact: John Doe (john@example.com)'' @ nl @
                   bullet @ '' Contact: Jane Smith (jane@example.com)'' @ nl @
                   bullet @ '' Conversation: '' @ dq @ ''Follow-up call scheduled'' @ dq @ nl @
                   bullet @ '' Blog Post: '' @ dq @ ''How to Generate More Leads'' @ dq @ nl @ nl @
                   bar_chart @ '' Search completed successfully in GoHighLevel CRM.''))])"
  by (simp add: processJsonRpcMessage_def dispatch_def handleToolsCall_def and_then_Inr
      createJsonRpcResponse_def)

text \<open>
  C5. A message whose \<open>jsonrpc\<close> member is anything but the string \<open>2.0\<close> (absent
  included) is answered with an error of code -32600 that carries the message's own \<open>id\<close>,
  whatever its method is.
\<close>

theorem invalid_version_rejected:
  assumes "get_prop message ''jsonrpc'' = Inr version" and "version \<noteq> JStr ''2.0''"
  shows "\<exists>i. get_prop message ''id'' = Inr i \<and>
           processJsonRpcMessage rt message =
             Inr (JObj [(''jsonrpc'', JStr ''2.0''), (''id'', i),
                        (''error'', JObj [
                           (''code'', JNum ''-32600''),
                           (''message'',
                            JStr (''Invalid Request: jsonrpc must be '' @ sq @ ''2.0'' @ sq))])])"
proof -
  from assms(1) have nn: "message \<noteq> JNull \<and> message \<noteq> JUndefined"
    by (rule get_prop_Inr_not_nullish)
  then obtain i where i: "get_prop message ''id'' = Inr i"
    using get_prop_total by blast
  from nn obtain m where m: "get_prop message ''method'' = Inr m"
    using get_prop_total by blast
  have "dispatch rt message =
          Inr (createJsonRpcResponse i JNull
                 (JObj [(''code'', JNum ''-32600''),
                        (''message'',
                         JStr (''Invalid Request: jsonrpc must be '' @ sq @ ''2.0'' @ sq))]))"
    using assms i m by (simp add: dispatch_def and_then_Inr)
  then show ?thesis
    using i by (simp add: processJsonRpcMessage_def createJsonRpcResponse_def)
qed

theorem invalid_version_rejected_witness:
  "get_prop (JObj [(''jsonrpc'', JStr ''1.0''), (''id'', JNum ''7''), (''method'', JStr ''ping'')])
     ''jsonrpc'' = Inr (JStr ''1.0'') \<and>
   JStr ''1.0'' \<noteq> JStr ''2.0'' \<and>
   processJsonRpcMessage example_runtime
     (JObj [(''jsonrpc'', JStr ''1.0''), (''id'', JNum ''7''), (''method'', JStr ''ping'')]) =
     Inr (JObj [(''jsonrpc'', JStr ''2.0''), (''id'', JNum ''7''),
                (''error'', JObj [
                   (''code'', JNum ''-32600''),
                   (''message'',
                    JStr (''Invalid Request: jsonrpc must be '' @ sq @ ''2.0'' @ sq))])])"
  using invalid_version_rejected
    [of "JObj [(''jsonrpc'', JStr ''1.0''), (''id'', JNum ''7''), (''method'', JStr ''ping'')]"
        "JStr ''1.0''" example_runtime]
  by simp

lemma tool_names: "map (\<lambda>t. JStr (name t)) TOOLS = [JStr ''search'', JStr ''retrieve'']"
  by (simp add: TOOLS_def search_tool_def retrieve_tool_def)

lemma executeToolLogic_search:
  "executeToolLogic rt (JStr ''search'') p =
     and_then (get_prop p ''query'') (\<lambda>q. and_then (js_to_string q) (\<lambda>qs.
       Inr (''GoHighLevel Search Results for: '' @ dq @ qs @ dq @ nl @ nl @
               check_mark @ '' Found Results:'' @ nl @
               bullet @ '' Contact: John Doe (john@example.com)'' @ nl @
               bullet @ '' Contact: Jane Smith (jane@example.com)'' @ nl @
               bullet @ '' Conversation: '' @ dq @ ''Follow-up call scheduled'' @ dq @ nl @
               bullet @ '' Blog Post: '' @ dq @ ''How to Generate More Leads'' @ dq @ nl @ nl @
               bar_chart @ '' Search completed successfully in GoHighLevel CRM.'')))"
  by (simp add: executeToolLogic_def)

text \<open>
  C10. The text a search returns is a function of the \<open>query\<close> argument alone: two
  parameter objects with the same \<open>query\<close> give the same outcome of \<open>executeToolLogic\<close>,
  whatever else they hold and whatever the clock reads; and \<open>tools/call\<close> wraps exactly
  the text \<open>executeToolLogic\<close> gives for the same arguments.
\<close>

theorem search_depends_only_on_query:
  "(get_prop p1 ''query'' = get_prop p2 ''query'' \<longrightarrow>
      executeToolLogic rt1 (JStr ''search'') p1 = executeToolLogic rt2 (JStr ''search'') p2) \<and>
   (get_prop request ''params'' = Inr params \<and>
    get_prop params ''name'' = Inr (JStr ''search'') \<and>
    get_prop params ''arguments'' = Inr args \<and>
    get_prop request ''id'' = Inr i \<longrightarrow>
      handleToolsCall rt request =
        and_then (executeToolLogic rt (JStr ''search'') args)
          (\<lambda>txt. Inr (createJsonRpcResponse i (text_content txt) JNull)))"
proof (intro conjI impI)
  assume "get_prop p1 ''query'' = get_prop p2 ''query''"
  then show "executeToolLogic rt1 (JStr ''search'') p1 = executeToolLogic rt2 (JStr ''search'') p2"
    by (simp add: executeToolLogic_search)
next
  assume a: "get_prop request ''params'' = Inr params \<and>
    get_prop params ''name'' = Inr (JStr ''search'') \<and>
    get_prop params ''arguments'' = Inr args \<and>
    get_prop request ''id'' = Inr i"
  then have nn: "params \<noteq> JNull \<and> params \<noteq> JUndefined"
    using get_prop_Inr_not_nullish by blast
  show "handleToolsCall rt request =
        and_then (executeToolLogic rt (JStr ''search'') args)
          (\<lambda>txt. Inr (createJsonRpcResponse i (text_content txt) JNull))"
  proof (cases "get_prop args ''query''")
    case (Inl e)
    then show ?thesis
      using a nn by (simp add: handleToolsCall_def executeToolLogic_search and_then_Inr and_then_Inl)
  next
    case (Inr q)
    then show ?thesis
      using a nn
      by (cases "js_to_string q")
         (simp_all add: handleToolsCall_def executeToolLogic_search and_then_Inr and_then_Inl)
  qed
qed

theorem search_depends_only_on_query_witness:
  "get_prop (JObj [(''query'', JStr ''leads''), (''limit'', JNum ''5'')]) ''query'' =
     get_prop (JObj [(''query'', JStr ''leads'')]) ''query'' \<and>
   executeToolLogic example_runtime (JStr ''search'')
       (JObj [(''query'', JStr ''leads''), (''limit'', JNum ''5'')]) =
     executeToolLogic example_runtime (JStr ''search'') (JObj [(''query'', JStr ''leads'')]) \<and>
   handleToolsCall example_runtime
       (JObj [(''jsonrpc'', JStr ''2.0''), (''id'', JNum ''3''), (''method'', JStr ''tools/call''),
              (''params'', JObj [(''name'', JStr ''search''),
                                 (''arguments'', JObj [(''query'', JStr ''leads'')])])]) =
     and_then (executeToolLogic example_runtime (JStr ''search'') (JObj [(''query'', JStr ''leads'')]))
       (\<lambda>txt. Inr (createJsonRpcResponse (JNum ''3'') (text_content txt) JNull))"
  using search_depends_only_on_query
    [of "JObj [(''query'', JStr ''leads''), (''limit'', JNum ''5'')]"
        "JObj [(''query'', JStr ''leads'')]"
        example_runtime example_runtime
        "JObj [(''jsonrpc'', JStr ''2.0''), (''id'', JNum ''3''), (''method'', JStr ''tools/call''),
              (''params'', JObj [(''name'', JStr ''search''),
                                 (''arguments'', JObj [(''query'', JStr ''leads'')])])]"
        "JObj [(''name'', JStr ''search''), (''arguments'', JObj [(''query'', JStr ''leads'')])]"
        "JObj [(''query'', JStr ''leads'')]"
        "JNum ''3''" example_runtime]
  by simp


lemma unknown_tool_text_404:
  "includes_str (''Unknown tool: '' @ toolName) ''404'' = includes_str toolName ''404''"
  by (simp add: starts_with_def)




section \<open>Properties of the event handling\<close>

lemma example_clock: "clock example_runtime site = ''2025-01-01T00:00:00.000Z''"
  by (simp add: example_runtime_def)

lemma example_parse_brace: "json_parse example_runtime ''{'' = Inl ''Unexpected token''"
  by (simp add: example_runtime_def ping_body_def null_query_body_def)


lemma example_parse_ping:
  "json_parse example_runtime ping_body =
     Inr (JObj [(''jsonrpc'', JStr ''2.0''), (''id'', JNum ''1''), (''method'', JStr ''ping'')])"
  by (simp add: example_runtime_def ping_body_def)

lemma example_parse_null_query:
  "json_parse example_runtime null_query_body =
     Inr (JObj [(''parameters'', JObj [(''query'', JNull)])])"
  by (simp add: example_runtime_def ping_body_def null_query_body_def dq_def)

lemma run_Nil: "run rt c [] = c"
  by (simp add: run_def)

lemma run_Cons: "run rt c (e # es) = run rt (step rt c e) es"
  by (simp add: run_def)

lemma run_append: "run rt c (xs @ ys) = run rt (run rt c xs) ys"
  by (simp add: run_def)

lemma step_data:
  assumes "listening c = SSEBody \<or> listening c = GenAIBody tn" and "now c \<le> t"
  shows "step rt c (t, Data s) = c\<lparr>body := body c @ s, now := t\<rparr>"
  using assms by (auto simp: step_def)

lemma run_data:
  assumes "listening c = SSEBody \<or> listening c = GenAIBody tn"
    and "sorted (map fst chunks)" and "\<forall>t \<in> set (map fst chunks). now c \<le> t"
  shows "run rt c (data_events chunks) =
           c\<lparr>body := body c @ received chunks, now := last (now c # map fst chunks)\<rparr>"
  using assms
proof (induction chunks arbitrary: c)
  case Nil
  then show ?case by (simp add: data_events_def received_def run_Nil)
next
  case (Cons ch chunks)
  obtain t s where ch: "ch = (t, s)" by (cases ch)
  let ?c = "c\<lparr>body := body c @ s, now := t\<rparr>"
  have st: "step rt c (t, Data s) = ?c"
    using Cons.prems ch by (intro step_data) auto
  have "run rt ?c (data_events chunks) =
          ?c\<lparr>body := body ?c @ received chunks, now := last (now ?c # map fst chunks)\<rparr>"
    using Cons.prems ch by (intro Cons.IH) auto
  then show ?case
    using st ch by (simp add: data_events_def received_def run_Cons)
qed

lemma step_quiet:
  assumes "listening c = Nothing" and "tools_due c = None" and "heartbeat_due c = None"
    and "deadline_due c = None" and "end_due c = None"
  shows "\<exists>n. step rt c e = c\<lparr>now := n\<rparr>"
proof (cases e)
  case (Pair t ev)
  show ?thesis
  proof (cases "t < now c")
    case True
    then have "step rt c e = c\<lparr>now := now c\<rparr>" using Pair by (simp add: step_def)
    then show ?thesis by blast
  next
    case False
    have "react rt t ev c = c"
      using assms by (cases ev) (simp_all add: is_due_def)
    then have "step rt c e = c\<lparr>now := t\<rparr>" using Pair False by (simp add: step_def)
    then show ?thesis by blast
  qed
qed

lemma run_quiet:
  assumes "listening c = Nothing" and "tools_due c = None" and "heartbeat_due c = None"
    and "deadline_due c = None" and "end_due c = None"
  shows "out (run rt c evs) = out c"
  using assms
proof (induction evs arbitrary: c)
  case Nil
  then show ?case by (simp add: run_Nil)
next
  case (Cons e evs)
  then obtain n where n: "step rt c e = c\<lparr>now := n\<rparr>"
    using step_quiet by blast
  have "out (run rt (c\<lparr>now := n\<rparr>) evs) = out (c\<lparr>now := n\<rparr>)"
    using Cons.prems by (intro Cons.IH) simp_all
  then show ?case using n by (simp add: run_Cons)
qed

lemma sse_route:
  "module_exports rt \<lparr>http_method = ''GET'', url = ''/sse''\<rparr> =
     (idle (cors_headers @ [WriteHead 200 sse_headers, SendData initNotification]) SSEStream)
       \<lparr>tools_due := Some 100, heartbeat_due := Some 25000, deadline_due := Some 50000\<rparr>"
  by (simp add: module_exports_def starts_with_def)

lemma sse_post_route:
  assumes "http_method req = ''POST''" and "url req = ''/sse''"
  shows "module_exports rt req = idle (cors_headers @ [WriteHead 200 sse_headers]) SSEBody"
  using assms by (simp add: module_exports_def starts_with_def)

text \<open>
  C2. The claim: when the client of an event stream disconnects, both pending timers
  (heartbeat and deadline) are cancelled, and nothing is written to the stream afterwards.
  The \<open>close\<close> listener clears the heartbeat only. After a disconnect 10 ms into the
  connection the deadline is still due at 50000 ms and the tools notification at 100 ms;
  when they fire, the notification is written and \<open>res.end()\<close> is called on the stream
  the client has left.
\<close>

theorem close_leaves_deadline_and_notification:
  "deadline_due (run rt (module_exports rt \<lparr>http_method = ''GET'', url = ''/sse''\<rparr>) [(10, Close)])
     = Some 50000 \<and>
   tools_due (run rt (module_exports rt \<lparr>http_method = ''GET'', url = ''/sse''\<rparr>) [(10, Close)])
     = Some 100 \<and>
   out (run rt (module_exports rt \<lparr>http_method = ''GET'', url = ''/sse''\<rparr>)
          [(10, Close), (100, ToolsTimer), (50000, DeadlineTimer)])
     = out (run rt (module_exports rt \<lparr>http_method = ''GET'', url = ''/sse''\<rparr>) [(10, Close)]) @
       [SendData toolsNotification, End]"
  by (simp add: sse_route run_Cons run_Nil step_def idle_def is_due_def)

text \<open>
  C7. A POST to \<open>/sse\<close> whose body does not parse pushes one data frame, an error response
  with code -32700 and \<open>id\<close> null, and ends the stream; whatever happens later, nothing
  more is written.
\<close>

theorem malformed_post_single_parse_error:
  assumes "http_method req = ''POST''" and "url req = ''/sse''"
    and "sorted (map fst chunks)" and "\<forall>t \<in> set (map fst chunks). t \<le> t_end"
    and "json_parse rt (received chunks) = Inl m"
  shows "out (run rt (module_exports rt req) (data_events chunks @ [(t_end, EndOfBody)] @ later)) =
           cors_headers @
           [WriteHead 200 sse_headers,
            SendData (JObj [(''jsonrpc'', JStr ''2.0''), (''id'', JNull),
                            (''error'', JObj [(''code'', JNum ''-32700''),
                                             (''message'', JStr ''Parse error'')])]),
            End]"
proof -
  let ?c0 = "idle (cors_headers @ [WriteHead 200 sse_headers]) SSEBody"
  let ?c1 = "?c0\<lparr>body := body ?c0 @ received chunks, now := last (now ?c0 # map fst chunks)\<rparr>"
  have r1: "run rt ?c0 (data_events chunks) = ?c1"
    using assms(3) by (intro run_data[where tn = JNull]) (simp_all add: idle_def)
  have le: "now ?c1 \<le> t_end"
    using assms(4) last_in_set[of chunks]
    by (cases "chunks = []") (auto simp: idle_def last_map)
  let ?c2 = "step rt ?c1 (t_end, EndOfBody)"
  have out2: "out ?c2 = cors_headers @
           [WriteHead 200 sse_headers, SendData parse_error_response, End]"
    using le assms(5) by (simp add: step_def sse_post_on_end_def and_then_Inl idle_def)
  have quiet: "listening ?c2 = Nothing \<and> tools_due ?c2 = None \<and> heartbeat_due ?c2 = None \<and>
               deadline_due ?c2 = None \<and> end_due ?c2 = None"
    using le assms(5) by (simp add: step_def sse_post_on_end_def and_then_Inl idle_def)
  have "out (run rt ?c2 later) = out ?c2"
    using quiet by (intro run_quiet) simp_all
  then show ?thesis
    using r1 out2 assms(1,2)
    by (simp add: sse_post_route run_append run_Cons parse_error_response_def
        createJsonRpcResponse_def)
qed

theorem malformed_post_single_parse_error_witness:
  "json_parse example_runtime (received [(1, ''{'')]) = Inl ''Unexpected token'' \<and>
   out (run example_runtime
          (module_exports example_runtime \<lparr>http_method = ''POST'', url = ''/sse''\<rparr>)
          [(1, Data ''{''), (2, EndOfBody), (102, EndTimer), (200, Close)]) =
     cors_headers @
     [WriteHead 200 sse_headers,
      SendData (JObj [(''jsonrpc'', JStr ''2.0''), (''id'', JNull),
                      (''error'', JObj [(''code'', JNum ''-32700''),
                                       (''message'', JStr ''Parse error'')])]),
      End]"
  using malformed_post_single_parse_error
    [where req = "\<lparr>http_method = ''POST'', url = ''/sse''\<rparr>" and chunks = "[(1, ''{'')]"
       and t_end = 2 and rt = example_runtime and m = "''Unexpected token''"
       and later = "[(102, EndTimer), (200, Close)]"]
  example_parse_brace
  by (simp add: data_events_def received_def)

lemma step_extends: "\<exists>rest. out (step rt c e) = out c @ rest"
proof (cases e)
  case (Pair t ev)
  have "\<exists>rest. out (react rt t ev c) = out c @ rest"
    by (cases ev)
       (auto simp: sse_post_on_end_def split: listening.splits sum.splits)
  then show ?thesis using Pair by (auto simp: step_def)
qed

lemma run_extends: "\<exists>rest. out (run rt c evs) = out c @ rest"
proof (induction evs arbitrary: c)
  case Nil
  then show ?case by (simp add: run_Nil)
next
  case (Cons e evs)
  obtain r1 where r1: "out (step rt c e) = out c @ r1"
    using step_extends by blast
  obtain r2 where "out (run rt (step rt c e) evs) = out (step rt c e) @ r2"
    using Cons.IH by blast
  then show ?case using r1 by (simp add: run_Cons)
qed

lemma post_inv_react: "post_inv c \<Longrightarrow> post_inv (react rt t ev c)"
  by (cases ev)
     (auto simp: post_inv_def sse_post_on_end_def is_due_def split: sum.splits)

lemma post_inv_step: "post_inv c \<Longrightarrow> post_inv (step rt c e)"
  using post_inv_react[of c rt "fst e" "snd e"] by (auto simp: step_def post_inv_def)

lemma post_inv_run: "post_inv c \<Longrightarrow> post_inv (run rt c evs)"
  by (induction evs arbitrary: c) (simp_all add: run_Nil run_Cons post_inv_step)

lemma post_answer:
  assumes "sorted (map fst chunks)" and "\<forall>t \<in> set (map fst chunks). t \<le> t_end"
    and "json_parse rt (received chunks) = Inr message"
    and "processJsonRpcMessage rt message = Inr response"
  shows "run rt (idle (cors_headers @ [WriteHead 200 sse_headers]) SSEBody)
           (data_events chunks @ [(t_end, EndOfBody)]) =
         (idle (cors_headers @ [WriteHead 200 sse_headers, SendData response]) Nothing)
           \<lparr>body := received chunks, end_due := Some (t_end + 100), now := t_end\<rparr>"
proof -
  let ?c0 = "idle (cors_headers @ [WriteHead 200 sse_headers]) SSEBody"
  let ?c1 = "?c0\<lparr>body := body ?c0 @ received chunks, now := last (now ?c0 # map fst chunks)\<rparr>"
  have r1: "run rt ?c0 (data_events chunks) = ?c1"
    using assms(1) by (intro run_data[where tn = JNull]) (simp_all add: idle_def)
  have le: "now ?c1 \<le> t_end"
    using assms(2) last_in_set[of chunks]
    by (cases "chunks = []") (auto simp: idle_def last_map)
  show ?thesis
    using r1 le assms(3,4)
    by (simp add: run_append run_Cons run_Nil step_def sse_post_on_end_def and_then_Inr idle_def)
qed

text \<open>
  C8. On an event stream the \<open>notification/initialized\<close> frame is the first thing pushed
  after the headers, so no \<open>notification/tools/list_changed\<close> frame comes before it,
  whatever events follow. An exchange that carries a posted message writes at most one
  data frame and ends only after it; when the body parses and the dispatcher answers, the
  answer is pushed when the body ends and the stream is ended by the timer 100 ms later.
\<close>

theorem sse_push_order:
  "(\<exists>rest. out (run rt (module_exports rt \<lparr>http_method = ''GET'', url = ''/sse''\<rparr>) evs) =
            cors_headers @ [WriteHead 200 sse_headers, SendData initNotification] @ rest) \<and>
   pushed_before (SendData initNotification) (SendData toolsNotification)
     (out (run rt (module_exports rt \<lparr>http_method = ''GET'', url = ''/sse''\<rparr>) evs)) \<and>
   (out (run rt (module_exports rt \<lparr>http_method = ''POST'', url = ''/sse''\<rparr>) evs) =
      cors_headers @ [WriteHead 200 sse_headers] \<or>
    (\<exists>r. out (run rt (module_exports rt \<lparr>http_method = ''POST'', url = ''/sse''\<rparr>) evs) =
      cors_headers @ [WriteHead 200 sse_headers, SendData r]) \<or>
    (\<exists>r. out (run rt (module_exports rt \<lparr>http_method = ''POST'', url = ''/sse''\<rparr>) evs) =
      cors_headers @ [WriteHead 200 sse_headers, SendData r, End])) \<and>
   (sorted (map fst chunks) \<and> (\<forall>t \<in> set (map fst chunks). t \<le> t_end) \<and>
    json_parse rt (received chunks) = Inr message \<and>
    processJsonRpcMessage rt message = Inr response \<longrightarrow>
      out (run rt (module_exports rt \<lparr>http_method = ''POST'', url = ''/sse''\<rparr>)
             (data_events chunks @ [(t_end, EndOfBody)])) =
        cors_headers @ [WriteHead 200 sse_headers, SendData response] \<and>
      out (run rt (module_exports rt \<lparr>http_method = ''POST'', url = ''/sse''\<rparr>)
             (data_events chunks @ [(t_end, EndOfBody), (t_end + 100, EndTimer)])) =
        cors_headers @ [WriteHead 200 sse_headers, SendData response, End])"
proof (intro conjI impI)
  let ?get = "module_exports rt \<lparr>http_method = ''GET'', url = ''/sse''\<rparr>"
  let ?post = "module_exports rt \<lparr>http_method = ''POST'', url = ''/sse''\<rparr>"
  have og: "out ?get = cors_headers @ [WriteHead 200 sse_headers, SendData initNotification]"
    by (simp add: sse_route idle_def)
  obtain rest where rest: "out (run rt ?get evs) = out ?get @ rest"
    using run_extends by blast
  then show "\<exists>rest. out (run rt ?get evs) =
            cors_headers @ [WriteHead 200 sse_headers, SendData initNotification] @ rest"
    using og by simp
  show "pushed_before (SendData initNotification) (SendData toolsNotification)
          (out (run rt ?get evs))"
    using rest og by (simp add: cors_headers_def)
  have "post_inv ?post"
    by (simp add: sse_post_route post_inv_def idle_def)
  then have "post_inv (run rt ?post evs)"
    by (rule post_inv_run)
  then show "out (run rt ?post evs) = cors_headers @ [WriteHead 200 sse_headers] \<or>
    (\<exists>r. out (run rt ?post evs) = cors_headers @ [WriteHead 200 sse_headers, SendData r]) \<or>
    (\<exists>r. out (run rt ?post evs) = cors_headers @ [WriteHead 200 sse_headers, SendData r, End])"
    by (auto simp: post_inv_def)
next
  let ?post = "module_exports rt \<lparr>http_method = ''POST'', url = ''/sse''\<rparr>"
  assume a: "sorted (map fst chunks) \<and> (\<forall>t \<in> set (map fst chunks). t \<le> t_end) \<and>
    json_parse rt (received chunks) = Inr message \<and>
    processJsonRpcMessage rt message = Inr response"
  then have r: "run rt ?post (data_events chunks @ [(t_end, EndOfBody)]) =
         (idle (cors_headers @ [WriteHead 200 sse_headers, SendData response]) Nothing)
           \<lparr>body := received chunks, end_due := Some (t_end + 100), now := t_end\<rparr>"
    using post_answer[of chunks t_end rt message response] by (simp add: sse_post_route)
  then show "out (run rt ?post (data_events chunks @ [(t_end, EndOfBody)])) =
        cors_headers @ [WriteHead 200 sse_headers, SendData response]"
    by (simp add: idle_def)
  have "run rt ?post (data_events chunks @ [(t_end, EndOfBody), (t_end + 100, EndTimer)]) =
        step rt (run rt ?post (data_events chunks @ [(t_end, EndOfBody)])) (t_end + 100, EndTimer)"
    by (simp add: run_append run_Cons run_Nil)
  then show "out (run rt ?post (data_events chunks @ [(t_end, EndOfBody), (t_end + 100, EndTimer)])) =
        cors_headers @ [WriteHead 200 sse_headers, SendData response, End]"
    using r by (simp add: step_def is_due_def idle_def)
qed

theorem sse_push_order_witness:
  "out (run example_runtime (module_exports example_runtime \<lparr>http_method = ''GET'', url = ''/sse''\<rparr>)
          [(100, ToolsTimer), (25000, HeartbeatTimer), (30000, Close), (50000, DeadlineTimer)]) =
     cors_headers @ [WriteHead 200 sse_headers, SendData initNotification,
                     SendData toolsNotification, WriteRaw ('': heartbeat'' @ nl @ nl), End] \<and>
   json_parse example_runtime (received [(1, ping_body)]) =
     Inr (JObj [(''jsonrpc'', JStr ''2.0''), (''id'', JNum ''1''), (''method'', JStr ''ping'')]) \<and>
   processJsonRpcMessage example_runtime
       (JObj [(''jsonrpc'', JStr ''2.0''), (''id'', JNum ''1''), (''method'', JStr ''ping'')]) =
     Inr (JObj [(''jsonrpc'', JStr ''2.0''), (''id'', JNum ''1''), (''result'', JObj [])]) \<and>
   out (run example_runtime (module_exports example_runtime \<lparr>http_method = ''POST'', url = ''/sse''\<rparr>)
          (data_events [(1, ping_body)] @ [(2, EndOfBody), (2 + 100, EndTimer)])) =
     cors_headers @ [WriteHead 200 sse_headers,
       SendData (JObj [(''jsonrpc'', JStr ''2.0''), (''id'', JNum ''1''), (''result'', JObj [])]),
       End]"
proof -
  have parse: "json_parse example_runtime (received [(1, ping_body)]) =
     Inr (JObj [(''jsonrpc'', JStr ''2.0''), (''id'', JNum ''1''), (''method'', JStr ''ping'')])"
    by (simp add: received_def example_parse_ping)
  have answer: "processJsonRpcMessage example_runtime
       (JObj [(''jsonrpc'', JStr ''2.0''), (''id'', JNum ''1''), (''method'', JStr ''ping'')]) =
     Inr (JObj [(''jsonrpc'', JStr ''2.0''), (''id'', JNum ''1''), (''result'', JObj [])])"
    by (simp add: processJsonRpcMessage_def dispatch_def handlePing_def and_then_Inr
        createJsonRpcResponse_def)
  have get: "out (run example_runtime (module_exports example_runtime \<lparr>http_method = ''GET'', url = ''/sse''\<rparr>)
          [(100, ToolsTimer), (25000, HeartbeatTimer), (30000, Close), (50000, DeadlineTimer)]) =
     cors_headers @ [WriteHead 200 sse_headers, SendData initNotification,
                     SendData toolsNotification, WriteRaw ('': heartbeat'' @ nl @ nl), End]"
    by (simp add: sse_route run_Cons run_Nil step_def idle_def is_due_def)
  show ?thesis
    using sse_push_order
      [where rt = example_runtime and chunks = "[(1, ping_body)]" and t_end = 2
         and message = "JObj [(''jsonrpc'', JStr ''2.0''), (''id'', JNum ''1''),
                              (''method'', JStr ''ping'')]"
         and response = "JObj [(''jsonrpc'', JStr ''2.0''), (''id'', JNum ''1''),
                               (''result'', JObj [])]"]
      parse answer get
    by simp
qed

section \<open>Properties of the REST bridge\<close>

lemma tools_cases: "t \<in> set TOOLS \<Longrightarrow> t = search_tool \<or> t = retrieve_tool"
  by (simp add: TOOLS_def)

lemma name_search: "name search_tool = ''search''"
  by (simp add: search_tool_def)

lemma name_retrieve: "name retrieve_tool = ''retrieve''"
  by (simp add: retrieve_tool_def)

lemma find_search: "find (\<lambda>u. JStr (name u) = JStr (name search_tool)) TOOLS = Some search_tool"
  by (simp add: TOOLS_def name_search)

lemma find_retrieve: "find (\<lambda>u. JStr (name u) = JStr (name retrieve_tool)) TOOLS = Some retrieve_tool"
  by (simp add: TOOLS_def name_search name_retrieve)

lemma find_tool:
  assumes "t \<in> set TOOLS"
  shows "find (\<lambda>u. JStr (name u) = JStr (name t)) TOOLS = Some t"
  using tools_cases[OF assms] find_search find_retrieve by blast


lemma route_search:
  assumes "http_method req = ''POST''" and "url req = ''/api/genai/tools/'' @ name search_tool"
  shows "module_exports rt req = idle cors_headers (GenAIBody (JStr (name search_tool)))"
  using assms by (simp add: module_exports_def starts_with_def name_search)

lemma route_retrieve:
  assumes "http_method req = ''POST''" and "url req = ''/api/genai/tools/'' @ name retrieve_tool"
  shows "module_exports rt req = idle cors_headers (GenAIBody (JStr (name retrieve_tool)))"
  using assms by (simp add: module_exports_def starts_with_def name_retrieve)

lemma genai_route:
  assumes "t \<in> set TOOLS" and "http_method req = ''POST''"
    and "url req = ''/api/genai/tools/'' @ name t"
  shows "module_exports rt req = idle cors_headers (GenAIBody (JStr (name t)))"
  using tools_cases[OF assms(1)] assms(2,3) route_search route_retrieve by blast

lemma genai_run:
  assumes "sorted (map fst chunks)" and "\<forall>t \<in> set (map fst chunks). t \<le> t_end"
  shows "out (run rt (idle cors_headers (GenAIBody tn)) (data_events chunks @ [(t_end, EndOfBody)])) =
           cors_headers @ [genai_on_end rt tn (received chunks)]"
proof -
  let ?c0 = "idle cors_headers (GenAIBody tn)"
  let ?c1 = "?c0\<lparr>body := body ?c0 @ received chunks, now := last (now ?c0 # map fst chunks)\<rparr>"
  have r1: "run rt ?c0 (data_events chunks) = ?c1"
    using assms(1) by (intro run_data[where tn = tn]) (simp_all add: idle_def)
  have le: "now ?c1 \<le> t_end"
    using assms(2) last_in_set[of chunks]
    by (cases "chunks = []") (auto simp: idle_def last_map)
  show ?thesis
    using r1 le by (simp add: run_append run_Cons run_Nil step_def idle_def)
qed

lemma missing_params_object:
  "missing_params ps (JObj kvs) = Inr (filter (\<lambda>p. p \<notin> set (map fst kvs)) ps)"
  by (induction ps) (simp_all add: and_then_Inr)

lemma required_search: "required (inputSchema search_tool) = [''query'']"
  by (simp add: search_tool_def)

lemma required_retrieve: "required (inputSchema retrieve_tool) = [''id'', ''type'']"
  by (simp add: retrieve_tool_def)

lemma search_registered: "search_tool \<in> set TOOLS"
  by (simp add: TOOLS_def)



text \<open>
  C9. On the same path the check looks at the keys only: when every required name is a key
  of the parameters object, nothing is reported missing and the answer is what
  \<open>executeToolLogic\<close> makes of the parameters (status 200 with its text, or 500 with its
  error), whatever the values are: \<open>null\<close>, empty text, or of another type.
\<close>

theorem genai_presence_only:
  assumes "t \<in> set TOOLS"
    and "http_method req = ''POST''" and "url req = ''/api/genai/tools/'' @ name t"
    and "sorted (map fst chunks)" and "\<forall>t' \<in> set (map fst chunks). t' \<le> t_end"
    and "json_parse rt (received chunks) = Inr requestData"
    and "get_prop requestData ''parameters'' = Inr (JObj kvs)"
    and "set (required (inputSchema t)) \<subseteq> set (map fst kvs)"
  shows "missing_params (required (inputSchema t)) (JObj kvs) = Inr [] \<and>
         out (run rt (module_exports rt req) (data_events chunks @ [(t_end, EndOfBody)])) =
           cors_headers @ [
             case executeToolLogic rt (JStr (name t)) (JObj kvs) of
               Inr result \<Rightarrow>
                 StatusJson 200 (JObj [
                   (''success'', JBool True),
                   (''result'', JStr result),
                   (''metadata'', JObj [
                      (''tool'', JStr (name t)),
                      (''timestamp'', JStr (clock rt AtMetadata)),
                      (''parameters'', JObj kvs),
                      (''execution_time'', JStr (clock rt AtExecutionTime))])])
             | Inl toolError \<Rightarrow>
                 StatusJson 500 (JObj [
                   (''success'', JBool False),
                   (''error'', JStr (error_message rt toolError)),
                   (''metadata'', JObj [
                      (''tool'', JStr (name t)),
                      (''timestamp'', JStr (clock rt AtMetadata)),
                      (''parameters'', JObj kvs)])])]"
proof -
  have none: "filter (\<lambda>p. p \<notin> set (map fst kvs)) (required (inputSchema t)) = []"
    using assms(8) by (auto simp: filter_empty_conv)
  then have m: "missing_params (required (inputSchema t)) (JObj kvs) = Inr []"
    by (simp add: missing_params_object)
  have "genai_on_end rt (JStr (name t)) (received chunks) =
          (case executeToolLogic rt (JStr (name t)) (JObj kvs) of
               Inr result \<Rightarrow>
                 StatusJson 200 (JObj [
                   (''success'', JBool True),
                   (''result'', JStr result),
                   (''metadata'', JObj [
                      (''tool'', JStr (name t)),
                      (''timestamp'', JStr (clock rt AtMetadata)),
                      (''parameters'', JObj kvs),
                      (''execution_time'', JStr (clock rt AtExecutionTime))])])
             | Inl toolError \<Rightarrow>
                 StatusJson 500 (JObj [
                   (''success'', JBool False),
                   (''error'', JStr (error_message rt toolError)),
                   (''metadata'', JObj [
                      (''tool'', JStr (name t)),
                      (''timestamp'', JStr (clock rt AtMetadata)),
                      (''parameters'', JObj kvs)])]))"
    using assms(6,7) m find_tool[OF assms(1)]
    by (simp add: genai_on_end_def genai_try_def and_then_Inr metadata_def or_else_def Let_def
        split: sum.splits)
  then show ?thesis
    using m genai_run[OF assms(4,5), of rt "JStr (name t)"] genai_route[OF assms(1-3), of rt]
    by simp
qed

theorem genai_presence_only_witness:
  "set (required (inputSchema search_tool)) \<subseteq> set (map fst [(''query'', JNull)]) \<and>
   json_parse example_runtime (received [(1, null_query_body)]) =
     Inr (JObj [(''parameters'', JObj [(''query'', JNull)])]) \<and>
   out (run example_runtime
          (module_exports example_runtime
             \<lparr>http_method = ''POST'', url = ''/api/genai/tools/search''\<rparr>)
          [(1, Data null_query_body), (2, EndOfBody)]) =
     cors_headers @ [StatusJson 200 (JObj [
       (''success'', JBool True),
       (''result'', JStr (
          ''GoHighLevel Search Results for: '' @ dq @ ''null'' @ dq @ nl @ nl @
          check_mark @ '' Found Results:'' @ nl @
          bullet @ '' Contact: John Doe (john@example.com)'' @ nl @
          bullet @ '' Contact: Jane Smith (jane@example.com)'' @ nl @
          bullet @ '' Conversation: '' @ dq @ ''Follow-up call scheduled'' @ dq @ nl @
          bullet @ '' Blog Post: '' @ dq @ ''How to Generate More Leads'' @ dq @ nl @ nl @
          bar_chart @ '' Search completed successfully in GoHighLevel CRM.'')),
       (''metadata'', JObj [
          (''tool'', JStr ''search''),
          (''timestamp'', JStr ''2025-01-01T00:00:00.000Z''),
          (''parameters'', JObj [(''query'', JNull)]),
          (''execution_time'', JStr ''2025-01-01T00:00:00.000Z'')])])]"
proof -
  have parse: "json_parse example_runtime (received [(1, null_query_body)]) =
     Inr (JObj [(''parameters'', JObj [(''query'', JNull)])])"
    by (simp add: received_def example_parse_null_query)
  have given: "get_prop (JObj [(''parameters'', JObj [(''query'', JNull)])]) ''parameters'' =
     Inr (JObj [(''query'', JNull)])"
    by simp
  have keys: "set (required (inputSchema search_tool)) \<subseteq> set (map fst [(''query'', JNull)])"
    by (simp add: required_search)
  have run: "executeToolLogic example_runtime (JStr ''search'') (JObj [(''query'', JNull)]) =
     Inr (''GoHighLevel Search Results for: '' @ dq @ ''null'' @ dq @ nl @ nl @
          check_mark @ '' Found Results:'' @ nl @
          bullet @ '' Contact: John Doe (john@example.com)'' @ nl @
          bullet @ '' Contact: Jane Smith (jane@example.com)'' @ nl @
          bullet @ '' Conversation: '' @ dq @ ''Follow-up call scheduled'' @ dq @ nl @
          bullet @ '' Blog Post: '' @ dq @ ''How to Generate More Leads'' @ dq @ nl @ nl @
          bar_chart @ '' Search completed successfully in GoHighLevel CRM.'')"
    by (simp add: executeToolLogic_search and_then_Inr)
  have "out (run example_runtime
          (module_exports example_runtime
             \<lparr>http_method = ''POST'', url = ''/api/genai/tools/search''\<rparr>)
          (data_events [(1, null_query_body)] @ [(2, EndOfBody)])) =
        cors_headers @ [
             case executeToolLogic example_runtime (JStr (name search_tool)) (JObj [(''query'', JNull)]) of
               Inr result \<Rightarrow>
                 StatusJson 200 (JObj [
                   (''success'', JBool True),
                   (''result'', JStr result),
                   (''metadata'', JObj [
                      (''tool'', JStr (name search_tool)),
                      (''timestamp'', JStr (clock example_runtime AtMetadata)),
                      (''parameters'', JObj [(''query'', JNull)]),
                      (''execution_time'', JStr (clock example_runtime AtExecutionTime))])])
             | Inl toolError \<Rightarrow>
                 StatusJson 500 (JObj [
                   (''success'', JBool False),
                   (''error'', JStr (error_message example_runtime toolError)),
                   (''metadata'', JObj [
                      (''tool'', JStr (name search_tool)),
                      (''timestamp'', JStr (clock example_runtime AtMetadata)),
                      (''parameters'', JObj [(''query'', JNull)])])])]"
    using genai_presence_only [OF search_registered _ _ _ _ parse given keys,
        where req = "\<lparr>http_method = ''POST'', url = ''/api/genai/tools/search''\<rparr>"
          and t_end = 2]
    by (simp add: name_search)
  then show ?thesis
    using parse keys by (simp add: name_search run example_clock data_events_def)
qed

end
